theory Spec2Isabelle
  imports Main
begin

unbundle bit_operations_syntax

section \<open>JavaScript values\<close>

text \<open>
  The values that lib/model.js inspects: primitives, ObjectIDs (objects whose string form
  is their hex digits), arrays and plain objects (own properties in insertion order).
  \<open>JHole\<close> stands for a missing index of a sparse array; it occurs only inside \<open>JArr\<close>.
  Numbers are integers: the functions below only use counts, ranks and flags.
\<close>

datatype jsval =
    JUndefined
  | JNull
  | JBool bool
  | JNum int
  | JStr string
  | JOid string
  | JArr "jsval list"
  | JObj "(string \<times> jsval) list"
  | JHole

type_synonym obj = "(string \<times> jsval) list"

text \<open>ToBoolean. Objects, arrays and ObjectIDs are always truthy.\<close>

fun truthy :: "jsval \<Rightarrow> bool" where
  "truthy JUndefined = False"
| "truthy JNull = False"
| "truthy (JBool b) = b"
| "truthy (JNum n) = (n \<noteq> 0)"
| "truthy (JStr s) = (s \<noteq> [])"
| "truthy (JOid h) = True"
| "truthy (JArr xs) = True"
| "truthy (JObj kvs) = True"
| "truthy JHole = False"

text \<open>Own-property read, write and test on an object's property list.\<close>

fun obj_get :: "obj \<Rightarrow> string \<Rightarrow> jsval" where
  "obj_get [] k = JUndefined"
| "obj_get ((k', v) # kvs) k = (if k' = k then v else obj_get kvs k)"

fun obj_set :: "obj \<Rightarrow> string \<Rightarrow> jsval \<Rightarrow> obj" where
  "obj_set [] k v = [(k, v)]"
| "obj_set ((k', v') # kvs) k v = (if k' = k then (k, v) # kvs else (k', v') # obj_set kvs k v)"

fun obj_has :: "obj \<Rightarrow> string \<Rightarrow> bool" where
  "obj_has [] k = False"
| "obj_has ((k', v) # kvs) k = (k' = k \<or> obj_has kvs k)"

text \<open>
  \<open>x[k]\<close> and \<open>x[k] = v\<close> for a value x that the source has already found truthy (or
  created itself): a primitive has none of the keys read here, and an assignment to a
  property of a primitive is dropped (the file is not in strict mode). On \<open>undefined\<close>
  and \<open>null\<close> JavaScript throws instead; no caller passes them as \<open>where\<close>, and the
  functions here return them unchanged.
\<close>

fun get_prop :: "jsval \<Rightarrow> string \<Rightarrow> jsval" where
  "get_prop (JObj kvs) k = obj_get kvs k"
| "get_prop _ k = JUndefined"

fun set_prop :: "jsval \<Rightarrow> string \<Rightarrow> jsval \<Rightarrow> jsval" where
  "set_prop (JObj kvs) k v = JObj (obj_set kvs k v)"
| "set_prop x k v = x"

text \<open>\<open>utils.object.hasOwnProperty(x, k)\<close>.\<close>

fun hasOwnProperty :: "jsval \<Rightarrow> string \<Rightarrow> bool" where
  "hasOwnProperty (JObj kvs) k = obj_has kvs k"
| "hasOwnProperty _ k = False"

text \<open>\<open>Object.keys(x).length\<close>: the number of distinct keys of the property list.\<close>

definition keys_length :: "obj \<Rightarrow> nat" where
  "keys_length kvs = length (remdups (map fst kvs))"

subsection \<open>String(x)\<close>

text \<open>
  Integers are printed in decimal digits. JavaScript does so below \<open>10^21\<close> and switches
  to exponent form from there on; the properties below treat the string form of an id as
  given and do not depend on the digits of large numbers.
\<close>

fun digits :: "nat \<Rightarrow> string" where
  "digits n = (if n < 10 then [''0123456789'' ! n]
               else digits (n div 10) @ [''0123456789'' ! (n mod 10)])"

declare digits.simps [simp del]

definition String_int :: "int \<Rightarrow> string" where
  "String_int n = (if n < 0 then CHR ''-'' # digits (nat (- n)) else digits (nat n))"

fun String_js :: "jsval \<Rightarrow> string"
  and join_js :: "jsval list \<Rightarrow> string"
  and join_elem :: "jsval \<Rightarrow> string"
where
  "String_js JUndefined = ''undefined''"
| "String_js JNull = ''null''"
| "String_js (JBool b) = (if b then ''true'' else ''false'')"
| "String_js (JNum n) = String_int n"
| "String_js (JStr s) = s"
| "String_js (JOid h) = h"
| "String_js (JArr xs) = join_js xs"
| "String_js (JObj kvs) = ''[object Object]''"
| "String_js JHole = ''undefined''"
| "join_js [] = []"
| "join_js [x] = join_elem x"
| "join_js (x # y # ys) = join_elem x @ '','' @ join_js (y # ys)"
| "join_elem JUndefined = []"
| "join_elem JNull = []"
| "join_elem JHole = []"
| "join_elem (JBool b) = String_js (JBool b)"
| "join_elem (JNum n) = String_js (JNum n)"
| "join_elem (JStr s) = String_js (JStr s)"
| "join_elem (JOid h) = String_js (JOid h)"
| "join_elem (JArr xs) = String_js (JArr xs)"
| "join_elem (JObj kvs) = String_js (JObj kvs)"

subsection \<open>Strings\<close>

text \<open>\<open>path.split('.')[0]\<close>: the text before the first dot (the whole path if none).\<close>

definition split_first :: "string \<Rightarrow> string" where
  "split_first p = takeWhile (\<lambda>c. c \<noteq> CHR ''.'') p"

fun starts_with :: "string \<Rightarrow> string \<Rightarrow> bool" where
  "starts_with [] s = True"
| "starts_with (p # ps) [] = False"
| "starts_with (p # ps) (c # cs) = (p = c \<and> starts_with ps cs)"

fun contains :: "string \<Rightarrow> string \<Rightarrow> bool" where
  "contains p [] = starts_with p []"
| "contains p (c # cs) = (starts_with p (c # cs) \<or> contains p cs)"

text \<open>
  \<open>/\s?-_id\s?/.test(x)\<close>: both \<open>\s?\<close> may match nothing and the pattern is not
  anchored, so the test holds exactly when \<open>String(x)\<close> contains \<open>-_id\<close>.
\<close>

definition test_deselect_id :: "jsval \<Rightarrow> bool" where
  "test_deselect_id x = contains ''-_id'' (String_js x)"

section \<open>Documents, dirty records and population records\<close>

text \<open>
  \<open>pop.options\<close> of the record that \<open>doc.populated(path, true)\<close> returns: the populate
  call's \<open>match\<close>, \<open>options\<close> and \<open>select\<close>.
\<close>

record popopts =
  pop_match :: jsval
  pop_options :: jsval
  pop_select :: jsval

text \<open>
  A dirty value as \<open>$__delta\<close> and \<open>checkDivergentArray\<close> tell values apart:
  \<open>undefined\<close>, \<open>null\<close>, a MongooseArray (with its \<open>_atomics\<close>), another type that
  carries \<open>_path\<close> and \<open>_atomics\<close>, a MongooseBuffer, and everything else.
\<close>

datatype docvalue =
    DVUndefined
  | DVNull
  | DVArray obj jsval
  | DVAtomics obj jsval
  | DVBuffer jsval
  | DVOther jsval

record dirty_rec =
  d_path :: string
  d_value :: docvalue
  d_schema :: jsval

text \<open>
  The state of a document that lib/model.js reads: \<open>this.$__.version\<close> (0 when unset),
  \<open>this.schema.options.versionKey\<close> (a string or \<open>false\<close>), \<open>this.$__.selected\<close>,
  \<open>this.populated(path, true)\<close>, \<open>this.$__dirty()\<close>, \<open>this.isSelected(key)\<close> and
  \<open>this.getValue(key)\<close>. The last four belong to lib/document.js and are fields here.
\<close>

record document =
  version :: nat
  versionKey :: jsval
  selected :: jsval
  populated :: "string \<Rightarrow> popopts option"
  dirty :: "dirty_rec list"
  isSelected :: "jsval \<Rightarrow> bool"
  getValue :: "jsval \<Rightarrow> jsval"

text \<open>
  Modelled from the spec: \<open>setValue\<close> of the document base (lib/document.js is not among
  the sources) stores the value, so that \<open>getValue\<close> of the same key returns it.
\<close>

definition setValue :: "document \<Rightarrow> jsval \<Rightarrow> jsval \<Rightarrow> document" where
  "setValue d k v = d\<lparr>getValue := (getValue d)(k := v)\<rparr>"

definition VERSION_WHERE :: nat where "VERSION_WHERE = 1"
definition VERSION_INC :: nat where "VERSION_INC = 2"
definition VERSION_ALL :: nat where "VERSION_ALL = VERSION_WHERE OR VERSION_INC"

section \<open>checkDivergentArray\<close>

text \<open>The \<open>check\<close> expression over the populate options.\<close>

definition pop_check :: "popopts \<Rightarrow> bool" where
  "pop_check po =
     (truthy (pop_match po)
      \<or> (truthy (pop_options po) \<and> hasOwnProperty (pop_options po) ''limit'')
      \<or> (truthy (pop_options po) \<and> truthy (get_prop (pop_options po) ''skip''))
      \<or> (truthy (pop_select po)
          \<and> (get_prop (pop_select po) ''_id'' = JNum 0 \<or> test_deselect_id (pop_select po))))"

text \<open>\<open>0 === Object.keys(atomics).length || atomics.$set || atomics.$pop\<close>.\<close>

definition atomics_unsafe :: "obj \<Rightarrow> bool" where
  "atomics_unsafe atomics =
     (keys_length atomics = 0 \<or> truthy (obj_get atomics ''$set'') \<or> truthy (obj_get atomics ''$pop''))"

text \<open>The second half of the function, reached with the population record and the value.\<close>

fun check_populated :: "popopts option \<Rightarrow> string \<Rightarrow> docvalue \<Rightarrow> string option" where
  "check_populated (Some po) p (DVArray atomics content) =
     (if pop_check po then (if atomics_unsafe atomics then Some p else None) else None)"
| "check_populated pop p v = None"

definition checkDivergentArray :: "document \<Rightarrow> string \<Rightarrow> docvalue \<Rightarrow> string option" where
  "checkDivergentArray d p array =
     (let pop = populated d p;
          top = split_first p
      in if pop = None \<and> truthy (selected d)
            \<and> truthy (get_prop (selected d) top)
            \<and> truthy (get_prop (get_prop (selected d) top) ''$elemMatch'')
         then Some top
         else check_populated pop p array)"

section \<open>$__version\<close>

text \<open>
  \<open>Model_version\<close> is \<open>Model.prototype.$__version\<close>. The function mutates \<open>where\<close>,
  \<open>delta\<close> and (on insert) the document; the model returns the three. \<open>where\<close> is the
  value \<open>true\<close> on insert and an object on update.
\<close>

definition Model_version :: "document \<Rightarrow> jsval \<Rightarrow> obj \<Rightarrow> document \<times> jsval \<times> obj" where
  "Model_version d wh delta =
     (let key = versionKey d in
      if wh = JBool True then
        (if truthy key
         then (setValue d key (JNum 0), wh, obj_set delta (String_js key) (JNum 0))
         else (d, wh, delta))
      else if \<not> isSelected d key then (d, wh, delta)
      else
        (let wh1 = (if VERSION_WHERE = (VERSION_WHERE AND version d)
                    then set_prop wh (String_js key) (getValue d key) else wh);
             delta1 = (if VERSION_INC = (VERSION_INC AND version d)
                       then (let delta0 = (if truthy (obj_get delta ''$inc'') then delta
                                           else obj_set delta ''$inc'' (JObj []))
                             in obj_set delta0 ''$inc''
                                  (set_prop (obj_get delta0 ''$inc'') (String_js key) (JNum 1)))
                       else delta)
         in (d, wh1, delta1)))"

section \<open>$__delta\<close>

text \<open>
  \<open>Model_delta\<close> is \<open>Model.prototype.$__delta\<close>: it returns nothing (\<open>NoOp\<close>), a
  \<open>DivergentArrayError\<close> with the divergent paths, or the pair \<open>[where, delta]\<close>.
\<close>

text \<open>
  Modelled from the spec: \<open>operand\<close>, \<open>handleAtomics\<close>, the buffer's \<open>toObject\<close> and
  \<open>utils.clone\<close> are called by \<open>$__delta\<close> and are not among the sources. They are
  parameters here; following the spec (DeltaBuilder: no side effect beyond constructing
  the two output mappings) they return the new \<open>where\<close> and \<open>delta\<close> and leave the
  document alone. The last argument of \<open>operand\<close> is its optional operator name.
\<close>

record helpers =
  operand :: "document \<Rightarrow> jsval \<Rightarrow> obj \<Rightarrow> dirty_rec \<Rightarrow> jsval \<Rightarrow> string option \<Rightarrow> jsval \<times> obj"
  handleAtomics :: "document \<Rightarrow> jsval \<Rightarrow> obj \<Rightarrow> dirty_rec \<Rightarrow> docvalue \<Rightarrow> jsval \<times> obj"
  toObject :: "jsval \<Rightarrow> jsval"
  clone :: "jsval \<Rightarrow> jsval"

datatype delta_result =
    NoOp
  | DivergentArrayError "string list"
  | Delta jsval obj

text \<open>The branch of the loop body that adds the operand of one record.\<close>

fun add_operand :: "helpers \<Rightarrow> document \<Rightarrow> jsval \<Rightarrow> obj \<Rightarrow> dirty_rec \<Rightarrow> docvalue \<Rightarrow> jsval \<times> obj" where
  "add_operand h d wh delta data DVUndefined = operand h d wh delta data (JNum 1) (Some ''$unset'')"
| "add_operand h d wh delta data DVNull = operand h d wh delta data JNull None"
| "add_operand h d wh delta data (DVArray a c) = handleAtomics h d wh delta data (DVArray a c)"
| "add_operand h d wh delta data (DVAtomics a c) = handleAtomics h d wh delta data (DVAtomics a c)"
| "add_operand h d wh delta data (DVBuffer b) = operand h d wh delta data (toObject h b) None"
| "add_operand h d wh delta data (DVOther v) = operand h d wh delta data (clone h v) None"

text \<open>
  \<open>if (match)\<close> tests a string or \<open>undefined\<close>: the empty string is falsy, so only a
  non-empty returned path counts as a match.
\<close>

definition flagged :: "string option \<Rightarrow> string option" where
  "flagged m = (case m of None \<Rightarrow> None | Some s \<Rightarrow> if s = [] then None else Some s)"

fun delta_loop :: "helpers \<Rightarrow> document \<Rightarrow> dirty_rec list \<Rightarrow> jsval \<times> obj \<times> string list
                   \<Rightarrow> jsval \<times> obj \<times> string list" where
  "delta_loop h d [] st = st"
| "delta_loop h d (data # rest) (wh, delta, divergent) =
     (case flagged (checkDivergentArray d (d_path data) (d_value data)) of
        Some m \<Rightarrow> delta_loop h d rest (wh, delta, divergent @ [m])
      | None \<Rightarrow>
          if divergent \<noteq> [] then delta_loop h d rest (wh, delta, divergent)
          else (case add_operand h d wh delta data (d_value data) of
                  (wh', delta') \<Rightarrow> delta_loop h d rest (wh', delta', divergent)))"

definition Model_delta :: "helpers \<Rightarrow> document \<Rightarrow> delta_result" where
  "Model_delta h d =
     (if dirty d = [] \<and> VERSION_ALL \<noteq> version d then NoOp
      else (case delta_loop h d (dirty d) (JObj [], [], []) of
              (wh, delta, divergent) \<Rightarrow>
                if divergent \<noteq> [] then DivergentArrayError divergent
                else if version d \<noteq> 0
                then (case Model_version d wh delta of (d', wh', delta') \<Rightarrow> Delta wh' delta')
                else Delta wh delta))"

section \<open>assignRawDocsToIdStructure\<close>

text \<open>
  \<open>rawIds\<close> is an array of ids, \<open>null\<close>s and nested arrays of the same kind; the function
  rebuilds it in place and the model returns the rebuilt array. \<open>resultDocs[sid]\<close> is the
  value read under the key (\<open>JUndefined\<close> when there is none); \<open>resultOrder[sid]\<close> is the
  rank, \<open>None\<close> when the entry is missing or is not an array index. \<open>sort_opt\<close> is
  \<open>options.sort\<close>.
\<close>

text \<open>\<open>a[n] = v\<close> on an array: indices skipped over stay holes.\<close>

definition array_set :: "jsval list \<Rightarrow> nat \<Rightarrow> jsval \<Rightarrow> jsval list" where
  "array_set xs n v =
     (if n < length xs then xs[n := v] else xs @ replicate (n - length xs) JHole @ [v])"

text \<open>\<open>a[i]\<close> for an index in range: a hole reads as \<open>undefined\<close>.\<close>

definition array_read :: "jsval \<Rightarrow> jsval" where
  "array_read x = (if x = JHole then JUndefined else x)"

text \<open>
  The loop body for an element that is not an array. \<open>newOrder[resultOrder[sid]] = doc\<close>
  with a rank that is no array index sets a named property, which \<open>forEach\<close> never visits.
\<close>

definition assign_scalar ::
  "(string \<Rightarrow> jsval) \<Rightarrow> (string \<Rightarrow> nat option) \<Rightarrow> bool \<Rightarrow> bool \<Rightarrow> nat \<Rightarrow> jsval \<Rightarrow> jsval list
   \<Rightarrow> jsval list" where
  "assign_scalar resultDocs resultOrder recursed sorting i id0 newOrder =
     (if id0 = JNull \<and> \<not> sorting then newOrder @ [id0]
      else
        (let sid = String_js id0;
             doc = resultDocs sid
         in if recursed then
              (if truthy doc then
                 (if sorting then
                    (case resultOrder sid of
                       Some r \<Rightarrow> array_set newOrder r doc
                     | None \<Rightarrow> newOrder)
                  else newOrder @ [doc])
               else newOrder @ [id0])
            else array_set newOrder i (if truthy doc then doc else JNull)))"

function assignRawDocsToIdStructure ::
    "jsval list \<Rightarrow> (string \<Rightarrow> jsval) \<Rightarrow> (string \<Rightarrow> nat option) \<Rightarrow> jsval \<Rightarrow> bool \<Rightarrow> jsval list"
  and assign_loop ::
    "jsval list \<Rightarrow> (string \<Rightarrow> jsval) \<Rightarrow> (string \<Rightarrow> nat option) \<Rightarrow> jsval \<Rightarrow> bool \<Rightarrow> bool
     \<Rightarrow> nat \<Rightarrow> jsval list \<Rightarrow> jsval list"
where
  "assignRawDocsToIdStructure rawIds resultDocs resultOrder sort_opt recursed =
     assign_loop rawIds resultDocs resultOrder sort_opt recursed
       (truthy sort_opt \<and> length rawIds > 1) 0 []"
| "assign_loop [] resultDocs resultOrder sort_opt recursed sorting i newOrder = newOrder"
| "assign_loop (x # rest) resultDocs resultOrder sort_opt recursed sorting i newOrder =
     (case x of
        JArr ids \<Rightarrow>
          assign_loop rest resultDocs resultOrder sort_opt recursed sorting (Suc i)
            (newOrder @ [JArr (assignRawDocsToIdStructure ids resultDocs resultOrder sort_opt True)])
      | _ \<Rightarrow>
          assign_loop rest resultDocs resultOrder sort_opt recursed sorting (Suc i)
            (assign_scalar resultDocs resultOrder recursed sorting i (array_read x) newOrder))"
  by pat_completeness auto
termination
  by (relation "measure (\<lambda>a. case a of
                   Inl (rawIds, _) \<Rightarrow> 2 * size_list size rawIds + 1
                 | Inr (xs, _) \<Rightarrow> 2 * size_list size xs)") auto

declare assignRawDocsToIdStructure.simps [simp del]

section \<open>Notions used by the properties\<close>

subsection \<open>Delta computation\<close>

text \<open>The matches of \<open>checkDivergentArray\<close> over the dirty records, in record order.\<close>

definition flagged_paths :: "document \<Rightarrow> dirty_rec list \<Rightarrow> string list" where
  "flagged_paths d rs =
     List.map_filter (\<lambda>r. flagged (checkDivergentArray d (d_path r) (d_value r))) rs"

text \<open>
  Modelled from the spec: a concrete set of the helpers that are not among the sources,
  after DeltaBuilder step 2b: an operand is stored as \<open>update[op][path] = value\<close> with
  \<open>$set\<close> as the default operator and \<open>where\<close> untouched; atomic operators are merged
  under their own names; plain values are cloned and buffers unwrapped to themselves.
\<close>

definition spec_operand ::
  "document \<Rightarrow> jsval \<Rightarrow> obj \<Rightarrow> dirty_rec \<Rightarrow> jsval \<Rightarrow> string option \<Rightarrow> jsval \<times> obj" where
  "spec_operand d wh delta data v op =
     (let name = (case op of None \<Rightarrow> ''$set'' | Some n \<Rightarrow> n);
          delta0 = (if truthy (obj_get delta name) then delta else obj_set delta name (JObj []))
      in (wh, obj_set delta0 name (set_prop (obj_get delta0 name) (d_path data) v)))"

fun spec_atomics :: "document \<Rightarrow> jsval \<Rightarrow> obj \<Rightarrow> dirty_rec \<Rightarrow> obj \<Rightarrow> jsval \<times> obj" where
  "spec_atomics d wh delta data [] = (wh, delta)"
| "spec_atomics d wh delta data ((name, v) # ops) =
     (case spec_operand d wh delta data v (Some name) of
        (wh', delta') \<Rightarrow> spec_atomics d wh' delta' data ops)"

fun spec_handleAtomics ::
  "document \<Rightarrow> jsval \<Rightarrow> obj \<Rightarrow> dirty_rec \<Rightarrow> docvalue \<Rightarrow> jsval \<times> obj" where
  "spec_handleAtomics d wh delta data (DVArray atomics c) = spec_atomics d wh delta data atomics"
| "spec_handleAtomics d wh delta data (DVAtomics atomics c) = spec_atomics d wh delta data atomics"
| "spec_handleAtomics d wh delta data v = (wh, delta)"

definition spec_helpers :: helpers where
  "spec_helpers =
     \<lparr>operand = spec_operand, handleAtomics = spec_handleAtomics,
      toObject = (\<lambda>v. v), clone = (\<lambda>v. v)\<rparr>"

subsection \<open>Population options\<close>

text \<open>
  The limiting options in the words of the specification: a match filter, a \<open>limit\<close> key
  (whatever its value), a positive \<open>skip\<close>, a projection that excludes \<open>_id\<close> (the flag
  \<open>_id: 0\<close> or the text \<open>-_id\<close>).
\<close>

definition has_match_filter :: "popopts \<Rightarrow> bool" where
  "has_match_filter po = (case pop_match po of JObj kvs \<Rightarrow> True | _ \<Rightarrow> False)"

definition has_limit :: "popopts \<Rightarrow> bool" where
  "has_limit po = hasOwnProperty (pop_options po) ''limit''"

definition has_positive_skip :: "popopts \<Rightarrow> bool" where
  "has_positive_skip po =
     (case get_prop (pop_options po) ''skip'' of JNum n \<Rightarrow> 0 < n | _ \<Rightarrow> False)"

definition deselects_id :: "popopts \<Rightarrow> bool" where
  "deselects_id po =
     (get_prop (pop_select po) ''_id'' = JNum 0 \<or> contains ''-_id'' (String_js (pop_select po)))"

definition limited_population :: "popopts \<Rightarrow> bool" where
  "limited_population po =
     (has_match_filter po \<or> has_limit po \<or> has_positive_skip po \<or> deselects_id po)"

text \<open>
  The same four options as the code tests them: \<open>match\<close> and \<open>skip\<close> count when their
  value is truthy, whatever its type (any number but 0 for \<open>skip\<close>, negative ones
  included).
\<close>

definition has_truthy_match :: "popopts \<Rightarrow> bool" where
  "has_truthy_match po = truthy (pop_match po)"

definition has_truthy_skip :: "popopts \<Rightarrow> bool" where
  "has_truthy_skip po = truthy (get_prop (pop_options po) ''skip'')"

definition limiting_options :: "popopts \<Rightarrow> bool" where
  "limiting_options po =
     (has_truthy_match po \<or> has_limit po \<or> has_truthy_skip po \<or> deselects_id po)"

subsection \<open>Reassembly\<close>

definition is_array :: "jsval \<Rightarrow> bool" where
  "is_array x = (case x of JArr ids \<Rightarrow> True | _ \<Rightarrow> False)"

text \<open>
  What one element of \<open>rawIds\<close> becomes when the call is not sorting: a nested array is
  rebuilt by the recursive call, \<open>null\<close> stays, an id with a document is replaced by it,
  and an id without one stays (recursive call) or becomes \<open>null\<close> (top-level call).
\<close>

definition unsorted_elem ::
  "(string \<Rightarrow> jsval) \<Rightarrow> (string \<Rightarrow> nat option) \<Rightarrow> jsval \<Rightarrow> bool \<Rightarrow> jsval \<Rightarrow> jsval" where
  "unsorted_elem resultDocs resultOrder sort_opt recursed x =
     (case x of
        JArr ids \<Rightarrow> JArr (assignRawDocsToIdStructure ids resultDocs resultOrder sort_opt True)
      | _ \<Rightarrow>
          (let id0 = array_read x in
           if id0 = JNull then JNull
           else if truthy (resultDocs (String_js id0)) then resultDocs (String_js id0)
           else if recursed then id0 else JNull))"

text \<open>The same for a top-level call, sorting or not.\<close>

definition toplevel_elem ::
  "(string \<Rightarrow> jsval) \<Rightarrow> (string \<Rightarrow> nat option) \<Rightarrow> jsval \<Rightarrow> bool \<Rightarrow> jsval \<Rightarrow> jsval" where
  "toplevel_elem resultDocs resultOrder sort_opt sorting x =
     (case x of
        JArr ids \<Rightarrow> JArr (assignRawDocsToIdStructure ids resultDocs resultOrder sort_opt True)
      | _ \<Rightarrow>
          (let id0 = array_read x in
           if id0 = JNull \<and> \<not> sorting then JNull
           else if truthy (resultDocs (String_js id0)) then resultDocs (String_js id0)
           else JNull))"

subsection \<open>Concrete inputs\<close>

definition DocA :: jsval where "DocA = JObj [(''_id'', JNum 1), (''name'', JStr ''A'')]"
definition DocB :: jsval where "DocB = JObj [(''_id'', JNum 2), (''name'', JStr ''B'')]"
definition DocC :: jsval where "DocC = JObj [(''_id'', JNum 3), (''name'', JStr ''C'')]"

text \<open>The result maps \<open>{1: DocA, 3: DocC}\<close> and \<open>{1: DocA, 2: DocB}\<close>, the ranks \<open>{1: 0, 2: 1}\<close>.\<close>

definition docs_1_3 :: "string \<Rightarrow> jsval" where
  "docs_1_3 sid = (if sid = ''1'' then DocA else if sid = ''3'' then DocC else JUndefined)"

definition docs_1_2 :: "string \<Rightarrow> jsval" where
  "docs_1_2 sid = (if sid = ''1'' then DocA else if sid = ''2'' then DocB else JUndefined)"

definition order_1_2 :: "string \<Rightarrow> nat option" where
  "order_1_2 sid = (if sid = ''1'' then Some 0 else if sid = ''2'' then Some 1 else None)"

definition no_order :: "string \<Rightarrow> nat option" where
  "no_order sid = None"

text \<open>
  A document with version key \<open>__v\<close> (stored value 7), loaded without projection, with
  nothing populated and nothing dirty; \<open>v\<close> is its version state.
\<close>

definition plain_doc :: "nat \<Rightarrow> document" where
  "plain_doc v =
     \<lparr>version = v, versionKey = JStr ''__v'', selected = JUndefined,
      populated = (\<lambda>p. None), dirty = [],
      isSelected = (\<lambda>k. True),
      getValue = (\<lambda>k. if k = JStr ''__v'' then JNum 7 else JUndefined)\<rparr>"

text \<open>Populate options that limit nothing, and options with \<open>limit: 5\<close>.\<close>

definition pop_all :: popopts where
  "pop_all = \<lparr>pop_match = JUndefined, pop_options = JUndefined, pop_select = JUndefined\<rparr>"

definition pop_limit5 :: popopts where
  "pop_limit5 =
     \<lparr>pop_match = JUndefined, pop_options = JObj [(''limit'', JNum 5)], pop_select = JUndefined\<rparr>"

text \<open>
  A document loaded with \<open>{comments: {$elemMatch: {votes: 5}}}\<close>; \<open>pops\<close> says which
  paths are populated.
\<close>

definition elemMatch_doc :: "(string \<Rightarrow> popopts option) \<Rightarrow> dirty_rec list \<Rightarrow> document" where
  "elemMatch_doc pops recs =
     \<lparr>version = 0, versionKey = JStr ''__v'',
      selected = JObj [(''comments'', JObj [(''$elemMatch'', JObj [(''votes'', JNum 5)])])],
      populated = pops, dirty = recs,
      isSelected = (\<lambda>k. k = JStr ''comments''),
      getValue = (\<lambda>k. JUndefined)\<rparr>"

definition comments_populated :: "string \<Rightarrow> popopts option" where
  "comments_populated p = (if p = ''comments'' then Some pop_all else None)"

definition pop_skip0 :: popopts where
  "pop_skip0 =
     \<lparr>pop_match = JUndefined, pop_options = JObj [(''skip'', JNum 0)], pop_select = JUndefined\<rparr>"

definition pop_skip_neg :: popopts where
  "pop_skip_neg =
     \<lparr>pop_match = JUndefined, pop_options = JObj [(''skip'', JNum (- 1))],
      pop_select = JUndefined\<rparr>"

text \<open>
  A document whose path \<open>tags\<close> was populated under the options \<open>po\<close> and then replaced
  as a whole, after a change of \<open>title\<close>.
\<close>

definition tags_populated :: "popopts \<Rightarrow> string \<Rightarrow> popopts option" where
  "tags_populated po p = (if p = ''tags'' then Some po else None)"

definition tags_rec :: dirty_rec where
  "tags_rec = \<lparr>d_path = ''tags'', d_value = DVArray [] (JArr []), d_schema = JUndefined\<rparr>"

definition tags_doc :: "popopts \<Rightarrow> document" where
  "tags_doc po =
     \<lparr>version = 0, versionKey = JStr ''__v'', selected = JUndefined,
      populated = tags_populated po,
      dirty = [\<lparr>d_path = ''title'', d_value = DVOther (JStr ''t''), d_schema = JUndefined\<rparr>,
               tags_rec],
      isSelected = (\<lambda>k. True),
      getValue = (\<lambda>k. JUndefined)\<rparr>"

section \<open>Auxiliary facts\<close>

lemma obj_get_set: "obj_get (obj_set kvs k v) k' = (if k = k' then v else obj_get kvs k')"
  by (induction kvs) auto

lemma get_prop_falsy: "\<not> truthy v \<Longrightarrow> get_prop v k = JUndefined"
  by (cases v) simp_all

lemma get_prop_truthy: "truthy (get_prop v k) \<Longrightarrow> truthy v"
  by (cases v) simp_all

subsection \<open>The string form of a number never contains \<open>-_id\<close>\<close>

lemma starts_with_set: "starts_with p s \<Longrightarrow> set p \<subseteq> set s"
  by (induction p s rule: starts_with.induct) auto

lemma contains_set: "contains p s \<Longrightarrow> set p \<subseteq> set s"
proof (induction s)
  case Nil
  then show ?case using starts_with_set [of p "[]"] by simp
next
  case (Cons c cs)
  from Cons.prems have "starts_with p (c # cs) \<or> contains p cs" by simp
  then show ?case
  proof
    assume "starts_with p (c # cs)"
    then show ?thesis by (rule starts_with_set)
  next
    assume "contains p cs"
    then have "set p \<subseteq> set cs" by (rule Cons.IH)
    then show ?thesis by auto
  qed
qed

lemma digits_set: "set (digits n) \<subseteq> set ''0123456789''"
proof (induction n rule: digits.induct)
  case (1 n)
  have nth: "\<And>k. k < 10 \<Longrightarrow> ''0123456789'' ! k \<in> set ''0123456789''"
    by (rule nth_mem) simp
  show ?case
  proof (cases "n < 10")
    case True
    then show ?thesis using nth [of n] by (subst digits.simps) simp
  next
    case False
    then show ?thesis
      using 1 nth [of "n mod 10"] by (subst digits.simps) auto
  qed
qed

lemma String_int_no_deselect: "\<not> contains ''-_id'' (String_int n)"
proof
  assume "contains ''-_id'' (String_int n)"
  then have "CHR ''_'' \<in> set (String_int n)"
    using contains_set by fastforce
  then show False
    using digits_set by (auto simp add: String_int_def split: if_splits)
qed

subsection \<open>The divergence list of the delta loop\<close>

lemma delta_loop_divergent:
  "snd (snd (delta_loop h d rs (wh, delta, divergent))) = divergent @ flagged_paths d rs"
proof (induction rs arbitrary: wh delta divergent)
  case Nil
  show ?case by (simp add: flagged_paths_def List.map_filter_simps)
next
  case (Cons r rs)
  show ?case
  proof (cases "flagged (checkDivergentArray d (d_path r) (d_value r))")
    case None
    then show ?thesis
      using Cons.IH
      by (cases "add_operand h d wh delta r (d_value r)")
         (simp add: flagged_paths_def List.map_filter_simps)
  next
    case (Some m)
    then show ?thesis
      using Cons.IH [of wh delta "divergent @ [m]"]
      by (simp add: flagged_paths_def List.map_filter_simps)
  qed
qed

lemma flagged_paths_mem:
  "r \<in> set rs \<Longrightarrow> flagged (checkDivergentArray d (d_path r) (d_value r)) = Some m
   \<Longrightarrow> m \<in> set (flagged_paths d rs)"
  by (induction rs) (auto simp add: flagged_paths_def List.map_filter_simps split: option.splits)

subsection \<open>The check of the populate options\<close>

lemma pop_check_limiting: "pop_check po = limiting_options po"
proof -
  have l: "(truthy (pop_options po) \<and> hasOwnProperty (pop_options po) ''limit'') = has_limit po"
    by (cases "pop_options po") (simp_all add: has_limit_def)
  have s: "(truthy (pop_options po) \<and> truthy (get_prop (pop_options po) ''skip''))
           = has_truthy_skip po"
  proof -
    have "truthy (get_prop (pop_options po) ''skip'') \<Longrightarrow> truthy (pop_options po)"
      by (rule get_prop_truthy)
    then show ?thesis by (auto simp add: has_truthy_skip_def)
  qed
  have i: "(truthy (pop_select po)
            \<and> (get_prop (pop_select po) ''_id'' = JNum 0 \<or> test_deselect_id (pop_select po)))
           = deselects_id po"
    by (cases "pop_select po")
       (auto simp add: deselects_id_def test_deselect_id_def String_int_no_deselect)
  show ?thesis
    unfolding pop_check_def limiting_options_def has_truthy_match_def [symmetric] l s i ..
qed

subsection \<open>Reassembly without rank placement is a map over the elements\<close>

lemma array_set_end: "array_set xs (length xs) v = xs @ [v]"
  by (simp add: array_set_def)

lemma assign_scalar_unsorted:
  "\<not> is_array x \<Longrightarrow>
   assign_scalar rd ro recursed False (length acc) (array_read x) acc
     = acc @ [unsorted_elem rd ro s recursed x]"
  by (cases x) (simp_all add: assign_scalar_def unsorted_elem_def array_set_end Let_def is_array_def)

lemma assign_scalar_toplevel:
  "\<not> is_array x \<Longrightarrow>
   assign_scalar rd ro False sorting (length acc) (array_read x) acc
     = acc @ [toplevel_elem rd ro s sorting x]"
  by (cases x) (simp_all add: assign_scalar_def toplevel_elem_def array_set_end Let_def is_array_def)

lemma assign_loop_unsorted:
  "assign_loop xs rd ro s recursed False (length acc) acc
     = acc @ map (unsorted_elem rd ro s recursed) xs"
proof (induction xs arbitrary: acc)
  case Nil
  show ?case by simp
next
  case (Cons x xs)
  have step: "assign_loop (x # xs) rd ro s recursed False (length acc) acc
              = assign_loop xs rd ro s recursed False (length (acc @ [unsorted_elem rd ro s recursed x]))
                  (acc @ [unsorted_elem rd ro s recursed x])"
  proof (cases "is_array x")
    case True
    then obtain ids where x: "x = JArr ids" by (cases x) (simp_all add: is_array_def)
    show ?thesis by (simp add: x unsorted_elem_def)
  next
    case False
    then show ?thesis
      using assign_scalar_unsorted [OF False, where s = s]
      by (cases x) (simp_all add: is_array_def)
  qed
  show ?case
    unfolding step Cons.IH by simp
qed

lemma assign_loop_toplevel:
  "assign_loop xs rd ro s False sorting (length acc) acc
     = acc @ map (toplevel_elem rd ro s sorting) xs"
proof (induction xs arbitrary: acc)
  case Nil
  show ?case by simp
next
  case (Cons x xs)
  have step: "assign_loop (x # xs) rd ro s False sorting (length acc) acc
              = assign_loop xs rd ro s False sorting (length (acc @ [toplevel_elem rd ro s sorting x]))
                  (acc @ [toplevel_elem rd ro s sorting x])"
  proof (cases "is_array x")
    case True
    then obtain ids where x: "x = JArr ids" by (cases x) (simp_all add: is_array_def)
    show ?thesis by (simp add: x toplevel_elem_def)
  next
    case False
    then show ?thesis
      using assign_scalar_toplevel [OF False, where s = s]
      by (cases x) (simp_all add: is_array_def)
  qed
  show ?case
    unfolding step Cons.IH by simp
qed

lemma assign_unsorted:
  "\<not> (truthy s \<and> length rawIds > 1) \<Longrightarrow>
   assignRawDocsToIdStructure rawIds rd ro s recursed = map (unsorted_elem rd ro s recursed) rawIds"
proof -
  assume "\<not> (truthy s \<and> length rawIds > 1)"
  then have "(truthy s \<and> length rawIds > 1) = False" by simp
  then show ?thesis
    using assign_loop_unsorted [of rawIds rd ro s recursed "[]"]
    by (simp only: assignRawDocsToIdStructure.simps list.size append_Nil)
qed

lemma assign_toplevel:
  "assignRawDocsToIdStructure rawIds rd ro s False
     = map (toplevel_elem rd ro s (truthy s \<and> length rawIds > 1)) rawIds"
  using assign_loop_toplevel [of rawIds rd ro s "truthy s \<and> length rawIds > 1" "[]"]
  by (simp only: assignRawDocsToIdStructure.simps list.size append_Nil)

lemmas run_simps = assignRawDocsToIdStructure.simps docs_1_3_def docs_1_2_def order_1_2_def
  no_order_def DocA_def DocB_def DocC_def assign_scalar_def array_set_def array_read_def
  String_int_def digits.simps

lemmas version_simps = VERSION_ALL_def VERSION_WHERE_def VERSION_INC_def

lemmas divergence_simps = checkDivergentArray_def pop_check_def atomics_unsafe_def keys_length_def
  split_first_def test_deselect_id_def Let_def

section \<open>Properties of the delta computation\<close>

text \<open>
  C1, as the code has it: for a document with no dirty record, \<open>$__delta\<close> returns a
  delta only when the version state is exactly \<open>VERSION_ALL\<close> (both bits, the state that
  \<open>increment()\<close> sets). If the version key is selected, that delta has
  \<open>update.$inc[versionKey] = 1\<close> and its \<open>where\<close> pins the version key to the stored
  version value; if the version key is not selected, \<open>where\<close> and \<open>update\<close> are empty.
  With any other version state, the \<open>INC\<close> bit alone included, the result is the no-op.
\<close>

theorem version_only_delta:
  assumes "dirty d = []"
  shows "(version d = VERSION_ALL \<and> isSelected d (versionKey d) \<longrightarrow>
            Model_delta h d =
              Delta (JObj [(String_js (versionKey d), getValue d (versionKey d))])
                    [(''$inc'', JObj [(String_js (versionKey d), JNum 1)])])
       \<and> (version d = VERSION_ALL \<and> \<not> isSelected d (versionKey d) \<longrightarrow>
            Model_delta h d = Delta (JObj []) [])
       \<and> (version d \<noteq> VERSION_ALL \<longrightarrow> Model_delta h d = NoOp)"
  using assms
  by (auto simp add: Model_delta_def Model_version_def Let_def version_simps)

theorem version_only_delta_witness:
  "dirty (plain_doc 3) = []
   \<and> Model_delta spec_helpers (plain_doc 3) =
       Delta (JObj [(''__v'', JNum 7)]) [(''$inc'', JObj [(''__v'', JNum 1)])]
   \<and> Model_delta spec_helpers (plain_doc 1) = NoOp"
  using version_only_delta [of "plain_doc 3" spec_helpers]
        version_only_delta [of "plain_doc 1" spec_helpers]
  by (simp add: plain_doc_def version_simps)

text \<open>
  C1 as stated fails: a document with no dirty record and version state \<open>VERSION_INC\<close>
  (the \<open>INC\<close> bit set, the \<open>WHERE\<close> bit clear) gets the no-op result, not a delta.
\<close>

theorem version_only_inc_counterexample:
  "dirty (plain_doc 2) = []
   \<and> VERSION_INC AND version (plain_doc 2) = VERSION_INC
   \<and> Model_delta spec_helpers (plain_doc 2) = NoOp"
  by (simp add: plain_doc_def Model_delta_def version_simps)

text \<open>
  C2: if \<open>checkDivergentArray\<close> returns a path for at least one dirty record (a
  non-empty path: the code tests the returned string for truthiness), \<open>$__delta\<close>
  returns the \<open>DivergentArrayError\<close> that carries every returned path, in record order,
  and no \<open>where\<close>/\<open>update\<close> pair, whatever the operand helpers do.
\<close>

theorem divergence_aborts_delta:
  assumes "r \<in> set (dirty d)"
    and "flagged (checkDivergentArray d (d_path r) (d_value r)) = Some m"
  shows "Model_delta h d = DivergentArrayError (flagged_paths d (dirty d))
         \<and> m \<in> set (flagged_paths d (dirty d))
         \<and> (\<forall>wh delta. Model_delta h d \<noteq> Delta wh delta)"
proof -
  have mem: "m \<in> set (flagged_paths d (dirty d))"
    using assms by (rule flagged_paths_mem)
  obtain wh delta divergent
    where run: "delta_loop h d (dirty d) (JObj [], [], []) = (wh, delta, divergent)"
    by (cases "delta_loop h d (dirty d) (JObj [], [], [])") auto
  have "divergent = flagged_paths d (dirty d)"
    using delta_loop_divergent [of h d "dirty d" "JObj []" "[]" "[]"] run by simp
  moreover have "dirty d \<noteq> []" using assms(1) by auto
  moreover have "flagged_paths d (dirty d) \<noteq> []" using mem by auto
  ultimately have "Model_delta h d = DivergentArrayError (flagged_paths d (dirty d))"
    using run by (simp add: Model_delta_def)
  then show ?thesis using mem by simp
qed

theorem divergence_aborts_delta_witness:
  "tags_rec \<in> set (dirty (tags_doc pop_limit5))
   \<and> flagged (checkDivergentArray (tags_doc pop_limit5) (d_path tags_rec) (d_value tags_rec))
       = Some ''tags''
   \<and> Model_delta spec_helpers (tags_doc pop_limit5) = DivergentArrayError [''tags'']"
  using divergence_aborts_delta [of tags_rec "tags_doc pop_limit5" "''tags''" spec_helpers]
  by (simp add: divergence_simps tags_doc_def tags_rec_def tags_populated_def pop_limit5_def
        flagged_def flagged_paths_def List.map_filter_simps)

section \<open>Properties of the version step\<close>

text \<open>
  C3, as the code has it: called with \<open>true\<close> as \<open>where\<close> and a configured version key,
  \<open>$__version\<close> sets \<open>update[versionKey] = 0\<close> (a field of the document to insert, not an
  entry under \<open>$set\<close>), sets the document's stored version value to 0, and leaves
  \<open>where\<close> as it is.
\<close>

theorem insert_version:
  assumes "truthy (versionKey d)"
  shows "Model_version d (JBool True) delta =
           (setValue d (versionKey d) (JNum 0), JBool True,
            obj_set delta (String_js (versionKey d)) (JNum 0))
         \<and> obj_get (snd (snd (Model_version d (JBool True) delta))) (String_js (versionKey d))
             = JNum 0
         \<and> getValue (fst (Model_version d (JBool True) delta)) (versionKey d) = JNum 0
         \<and> fst (snd (Model_version d (JBool True) delta)) = JBool True"
  using assms by (simp add: Model_version_def setValue_def obj_get_set Let_def)

theorem insert_version_witness:
  "truthy (versionKey (plain_doc 0))
   \<and> Model_version (plain_doc 0) (JBool True) [(''title'', JStr ''t'')] =
       (setValue (plain_doc 0) (JStr ''__v'') (JNum 0), JBool True,
        [(''title'', JStr ''t''), (''__v'', JNum 0)])"
  using insert_version [of "plain_doc 0" "[(''title'', JStr ''t'')]"]
  by (simp add: plain_doc_def)

text \<open>
  C3 as stated fails: after the insert call on an empty \<open>update\<close>, with version key
  \<open>__v\<close>, \<open>update.$set[__v]\<close> is not 0 (there is no \<open>$set\<close> at all).
\<close>

theorem insert_version_counterexample:
  "get_prop (obj_get (snd (snd (Model_version (plain_doc 0) (JBool True) []))) ''$set'') ''__v''
     \<noteq> JNum 0"
  by (simp add: Model_version_def plain_doc_def setValue_def Let_def)

text \<open>
  C5, as the code has it: on a non-insert call with the \<open>INC\<close> bit set and the version
  key selected, \<open>$__version\<close> sets \<open>update.$inc[versionKey]\<close> to 1 whatever was there
  before (\<open>update.$inc\<close> being absent or an object), and keeps the other entries of
  \<open>update.$inc\<close>.
\<close>

theorem inc_sets_one:
  assumes "wh \<noteq> JBool True"
    and "isSelected d (versionKey d)"
    and "VERSION_INC AND version d = VERSION_INC"
    and "\<not> truthy (obj_get delta ''$inc'') \<or> (\<exists>kvs. obj_get delta ''$inc'' = JObj kvs)"
  shows "get_prop (obj_get (snd (snd (Model_version d wh delta))) ''$inc'')
           (String_js (versionKey d)) = JNum 1
       \<and> (\<forall>k. k \<noteq> String_js (versionKey d) \<longrightarrow>
             get_prop (obj_get (snd (snd (Model_version d wh delta))) ''$inc'') k
               = get_prop (obj_get delta ''$inc'') k)"
  using assms
  by (auto simp add: Model_version_def Let_def obj_get_set get_prop_falsy)

theorem inc_sets_one_witness:
  "JObj [] \<noteq> JBool True
   \<and> isSelected (plain_doc 2) (versionKey (plain_doc 2))
   \<and> VERSION_INC AND version (plain_doc 2) = VERSION_INC
   \<and> obj_get [(''$inc'', JObj [(''__v'', JNum 5), (''n'', JNum 4)])] ''$inc''
       = JObj [(''__v'', JNum 5), (''n'', JNum 4)]
   \<and> get_prop (obj_get (snd (snd (Model_version (plain_doc 2) (JObj [])
         [(''$inc'', JObj [(''__v'', JNum 5), (''n'', JNum 4)])]))) ''$inc'') ''__v'' = JNum 1
   \<and> get_prop (obj_get (snd (snd (Model_version (plain_doc 2) (JObj [])
         [(''$inc'', JObj [(''__v'', JNum 5), (''n'', JNum 4)])]))) ''$inc'') ''n'' = JNum 4"
  using inc_sets_one [of "JObj []" "plain_doc 2"
                         "[(''$inc'', JObj [(''__v'', JNum 5), (''n'', JNum 4)])]"]
  by (simp add: plain_doc_def version_simps)

text \<open>
  C5 as stated fails: with \<open>update.$inc[__v] = 5\<close> before the call, the entry is 1
  afterwards, not 5 + 1.
\<close>

theorem inc_accumulates_counterexample:
  "VERSION_INC AND version (plain_doc 2) = VERSION_INC
   \<and> isSelected (plain_doc 2) (versionKey (plain_doc 2))
   \<and> get_prop (obj_get [(''$inc'', JObj [(''__v'', JNum 5)])] ''$inc'') ''__v'' = JNum 5
   \<and> get_prop (obj_get (snd (snd (Model_version (plain_doc 2) (JObj [])
         [(''$inc'', JObj [(''__v'', JNum 5)])]))) ''$inc'') ''__v'' \<noteq> JNum (5 + 1)"
  by (simp add: Model_version_def plain_doc_def version_simps Let_def)

section \<open>Properties of the divergence check\<close>

text \<open>
  C4, as the code has it: for a document loaded with an \<open>$elemMatch\<close> projection on the
  top-level segment of a path, a write to that path is flagged at the top-level segment
  when the path itself is not populated. For a populated path the projection is not
  consulted: the result is that of the partial-population test alone (the path itself,
  or nothing; nothing for a value that is not a MongooseArray), and it is the same
  whatever the document's projection is.
\<close>

theorem elemMatch_trigger_unpopulated_only:
  "(populated d p = None
     \<and> truthy (get_prop (get_prop (selected d) (split_first p)) ''$elemMatch'')
     \<longrightarrow> checkDivergentArray d p v = Some (split_first p))
   \<and> (\<forall>po. populated d p = Some po \<longrightarrow>
         checkDivergentArray d p v = check_populated (Some po) p v
         \<and> checkDivergentArray d p v
             = (case v of
                  DVArray atomics content \<Rightarrow>
                    if pop_check po \<and> atomics_unsafe atomics then Some p else None
                | _ \<Rightarrow> None)
         \<and> (\<forall>sel. checkDivergentArray (d\<lparr>selected := sel\<rparr>) p v = checkDivergentArray d p v))"
proof (intro conjI impI allI)
  assume a: "populated d p = None
     \<and> truthy (get_prop (get_prop (selected d) (split_first p)) ''$elemMatch'')"
  then have "truthy (get_prop (selected d) (split_first p))"
    using get_prop_truthy by blast
  moreover from this have "truthy (selected d)"
    by (rule get_prop_truthy)
  ultimately show "checkDivergentArray d p v = Some (split_first p)"
    using a by (simp add: checkDivergentArray_def Let_def)
next
  fix po assume "populated d p = Some po"
  then show "checkDivergentArray d p v = check_populated (Some po) p v"
    by (simp add: checkDivergentArray_def Let_def)
next
  fix po assume "populated d p = Some po"
  then show "checkDivergentArray d p v
             = (case v of
                  DVArray atomics content \<Rightarrow>
                    if pop_check po \<and> atomics_unsafe atomics then Some p else None
                | _ \<Rightarrow> None)"
    by (cases v) (simp_all add: checkDivergentArray_def Let_def)
next
  fix po sel assume "populated d p = Some po"
  then show "checkDivergentArray (d\<lparr>selected := sel\<rparr>) p v = checkDivergentArray d p v"
    by (simp add: checkDivergentArray_def Let_def)
qed

theorem elemMatch_trigger_unpopulated_only_witness:
  "populated (elemMatch_doc (\<lambda>p. None) []) ''comments.0.text'' = None
   \<and> split_first ''comments.0.text'' = ''comments''
   \<and> checkDivergentArray (elemMatch_doc (\<lambda>p. None) []) ''comments.0.text'' (DVOther (JStr ''x''))
       = Some ''comments''
   \<and> populated (elemMatch_doc comments_populated []) ''comments'' = Some pop_all
   \<and> checkDivergentArray (elemMatch_doc comments_populated []) ''comments'' (DVArray [] (JArr []))
       = None
   \<and> checkDivergentArray (elemMatch_doc comments_populated []) ''comments'' (DVOther (JStr ''x''))
       = None"
  using elemMatch_trigger_unpopulated_only
    [of "elemMatch_doc (\<lambda>p. None) []" "''comments.0.text''" "DVOther (JStr ''x'')"]
    elemMatch_trigger_unpopulated_only
    [of "elemMatch_doc comments_populated []" "''comments''" "DVArray [] (JArr [])"]
    elemMatch_trigger_unpopulated_only
    [of "elemMatch_doc comments_populated []" "''comments''" "DVOther (JStr ''x'')"]
  by (simp add: elemMatch_doc_def split_first_def comments_populated_def pop_all_def
        pop_check_def test_deselect_id_def)

text \<open>
  C4 as stated fails: with \<open>comments\<close> loaded under \<open>$elemMatch\<close> and also populated
  (under options that limit nothing), replacing the array at \<open>comments\<close> is not flagged.
\<close>

theorem elemMatch_populated_counterexample:
  "truthy (get_prop (get_prop (selected (elemMatch_doc comments_populated []))
             (split_first ''comments'')) ''$elemMatch'')
   \<and> checkDivergentArray (elemMatch_doc comments_populated []) ''comments'' (DVArray [] (JArr []))
       \<noteq> Some (split_first ''comments'')"
  by (simp add: divergence_simps elemMatch_doc_def comments_populated_def pop_all_def)

text \<open>
  C7, as the code has it: for a populated path whose new value is a MongooseArray with no
  queued atomics, or with a queued \<open>$set\<close> or \<open>$pop\<close>, \<open>checkDivergentArray\<close> returns the
  path exactly when the populate options had a truthy \<open>match\<close>, a \<open>limit\<close> key (whatever
  its value, 0 included), a truthy \<open>skip\<close> (any number but 0, a negative one included;
  \<open>skip: 0\<close> does not count), or a projection that deselects \<open>_id\<close>; otherwise it returns
  nothing.
\<close>

theorem partial_population_trigger:
  assumes "populated d p = Some po"
    and "atomics_unsafe atomics"
  shows "checkDivergentArray d p (DVArray atomics content)
           = (if limiting_options po then Some p else None)"
  using assms pop_check_limiting [of po]
  by (simp add: checkDivergentArray_def Let_def)

theorem partial_population_trigger_witness:
  "populated (tags_doc pop_limit5) ''tags'' = Some pop_limit5
   \<and> atomics_unsafe []
   \<and> limiting_options pop_limit5
   \<and> checkDivergentArray (tags_doc pop_limit5) ''tags'' (DVArray [] (JArr [])) = Some ''tags''
   \<and> checkDivergentArray (tags_doc pop_skip0) ''tags'' (DVArray [] (JArr [])) = None"
  using partial_population_trigger [of "tags_doc pop_limit5" "''tags''" pop_limit5 "[]" "JArr []"]
        partial_population_trigger [of "tags_doc pop_skip0" "''tags''" pop_skip0 "[]" "JArr []"]
  by (simp add: tags_doc_def tags_populated_def pop_limit5_def pop_skip0_def
        atomics_unsafe_def keys_length_def limiting_options_def
        has_truthy_match_def has_limit_def has_truthy_skip_def deselects_id_def)

text \<open>
  C7 as stated fails: with \<open>tags\<close> populated under \<open>skip: -1\<close> and nothing else, and the
  array replaced as a whole, the path is flagged although the options hold no match
  filter, no \<open>limit\<close> key, no positive \<open>skip\<close> and no projection.
\<close>

theorem negative_skip_counterexample:
  "populated (tags_doc pop_skip_neg) ''tags'' = Some pop_skip_neg
   \<and> atomics_unsafe []
   \<and> \<not> limited_population pop_skip_neg
   \<and> checkDivergentArray (tags_doc pop_skip_neg) ''tags'' (DVArray [] (JArr [])) = Some ''tags''"
  by (simp add: divergence_simps tags_doc_def tags_populated_def pop_skip_neg_def
        limited_population_def has_match_filter_def has_limit_def has_positive_skip_def
        deselects_id_def)

section \<open>Properties of reference reassembly\<close>

text \<open>
  C8: in a top-level call on single references (no element of \<open>rawIds\<close> is an array),
  sorting or not, the result has the length of \<open>rawIds\<close> and every position holds
  \<open>null\<close> or the document found in the result map under the string form of the id,
  never the bare id; an id that has a document gets that document. Ids \<open>[1, 2, 3]\<close> with
  result map \<open>{1: DocA, 3: DocC}\<close> and no sort give \<open>[DocA, null, DocC]\<close>.
\<close>

theorem findOne_doc_or_null:
  assumes "\<forall>x \<in> set rawIds. \<not> is_array x"
  shows "length (assignRawDocsToIdStructure rawIds rd ro s False) = length rawIds
       \<and> (\<forall>i < length rawIds.
            assignRawDocsToIdStructure rawIds rd ro s False ! i = JNull
            \<or> (truthy (rd (String_js (array_read (rawIds ! i))))
                \<and> assignRawDocsToIdStructure rawIds rd ro s False ! i
                    = rd (String_js (array_read (rawIds ! i)))))
       \<and> (\<forall>i < length rawIds.
            rawIds ! i \<noteq> JNull \<and> truthy (rd (String_js (array_read (rawIds ! i))))
            \<longrightarrow> assignRawDocsToIdStructure rawIds rd ro s False ! i
                  = rd (String_js (array_read (rawIds ! i))))
       \<and> assignRawDocsToIdStructure [JNum 1, JNum 2, JNum 3] docs_1_3 no_order JUndefined False
           = [DocA, JNull, DocC]"
proof -
  let ?sorting = "truthy s \<and> length rawIds > 1"
  have example:
    "assignRawDocsToIdStructure [JNum 1, JNum 2, JNum 3] docs_1_3 no_order JUndefined False
       = [DocA, JNull, DocC]"
    by (simp add: run_simps)
  have pos: "(toplevel_elem rd ro s ?sorting (rawIds ! i) = JNull
        \<or> (truthy (rd (String_js (array_read (rawIds ! i))))
            \<and> toplevel_elem rd ro s ?sorting (rawIds ! i)
                = rd (String_js (array_read (rawIds ! i)))))
      \<and> (rawIds ! i \<noteq> JNull \<and> truthy (rd (String_js (array_read (rawIds ! i))))
            \<longrightarrow> toplevel_elem rd ro s ?sorting (rawIds ! i)
                  = rd (String_js (array_read (rawIds ! i))))"
    if "i < length rawIds" for i
  proof -
    from that have "\<not> is_array (rawIds ! i)" using assms by simp
    then show ?thesis
      by (cases "rawIds ! i")
         (simp_all add: toplevel_elem_def is_array_def array_read_def Let_def)
  qed
  have
    "length (assignRawDocsToIdStructure rawIds rd ro s False) = length rawIds
     \<and> (\<forall>i < length rawIds.
          assignRawDocsToIdStructure rawIds rd ro s False ! i = JNull
          \<or> (truthy (rd (String_js (array_read (rawIds ! i))))
              \<and> assignRawDocsToIdStructure rawIds rd ro s False ! i
                  = rd (String_js (array_read (rawIds ! i)))))
     \<and> (\<forall>i < length rawIds.
          rawIds ! i \<noteq> JNull \<and> truthy (rd (String_js (array_read (rawIds ! i))))
          \<longrightarrow> assignRawDocsToIdStructure rawIds rd ro s False ! i
                = rd (String_js (array_read (rawIds ! i))))"
    using pos by (simp add: assign_toplevel)
  then show ?thesis using example by blast
qed

theorem findOne_doc_or_null_witness:
  "\<not> is_array (JNum 1) \<and> \<not> is_array (JNum 2) \<and> \<not> is_array (JNum 3)
   \<and> length (assignRawDocsToIdStructure [JNum 1, JNum 2, JNum 3] docs_1_3 no_order
        (JStr ''name'') False) = 3
   \<and> assignRawDocsToIdStructure [JNum 1, JNum 2, JNum 3] docs_1_3 no_order JUndefined False
       = [DocA, JNull, DocC]"
  using findOne_doc_or_null [of "[JNum 1, JNum 2, JNum 3]" docs_1_3 no_order "JStr ''name''"]
  by (simp add: is_array_def)

text \<open>
  C9: in a recursive (find) call without sort, the result has the length of the id
  sequence, and an id that is not in the result map stays at its position as it was; ids
  \<open>[ [1, 2], [3] ]\<close> with result map \<open>{1: DocA, 2: DocB}\<close> give \<open>[ [DocA, DocB], [3] ]\<close>.
\<close>

theorem find_keeps_missing_id:
  assumes "\<not> truthy s"
  shows "length (assignRawDocsToIdStructure ids rd ro s True) = length ids
       \<and> (\<forall>i < length ids.
            \<not> is_array (ids ! i) \<and> ids ! i \<noteq> JHole \<and> \<not> truthy (rd (String_js (ids ! i)))
            \<longrightarrow> assignRawDocsToIdStructure ids rd ro s True ! i = ids ! i)
       \<and> assignRawDocsToIdStructure [JArr [JNum 1, JNum 2], JArr [JNum 3]] docs_1_2 no_order
           JUndefined False
           = [JArr [DocA, DocB], JArr [JNum 3]]"
proof -
  have example:
    "assignRawDocsToIdStructure [JArr [JNum 1, JNum 2], JArr [JNum 3]] docs_1_2 no_order
       JUndefined False = [JArr [DocA, DocB], JArr [JNum 3]]"
    by (simp add: run_simps)
  have "unsorted_elem rd ro s True x = x"
    if "\<not> is_array x" and "x \<noteq> JHole" and "\<not> truthy (rd (String_js x))" for x
    using that by (cases x) (simp_all add: unsorted_elem_def is_array_def array_read_def)
  then have
    "length (assignRawDocsToIdStructure ids rd ro s True) = length ids
     \<and> (\<forall>i < length ids.
          \<not> is_array (ids ! i) \<and> ids ! i \<noteq> JHole \<and> \<not> truthy (rd (String_js (ids ! i)))
          \<longrightarrow> assignRawDocsToIdStructure ids rd ro s True ! i = ids ! i)"
    using assms by (simp add: assign_unsorted)
  then show ?thesis using example by blast
qed

theorem find_keeps_missing_id_witness:
  "\<not> truthy JUndefined
   \<and> \<not> is_array (JNum 3) \<and> \<not> truthy (docs_1_2 (String_js (JNum 3)))
   \<and> assignRawDocsToIdStructure [JNum 1, JNum 3] docs_1_2 no_order JUndefined True ! 1 = JNum 3"
  using find_keeps_missing_id [of JUndefined "[JNum 1, JNum 3]" docs_1_2 no_order]
  by (simp add: is_array_def docs_1_2_def String_int_def digits.simps)




text \<open>
  C6, at an input where a sort is requested: the references \<open>[1, null]\<close> of one
  document, with result map \<open>{1: DocA, 2: DocB}\<close> and ranks \<open>{1: 0, 2: 1}\<close>, are rebuilt
  as \<open>[DocA, null]\<close>. The \<open>null\<close> skips the branch that keeps it verbatim, is looked up
  under the key \<open>null\<close>, and is pushed back as an id without a document.
\<close>

theorem sorted_null_kept:
  "assignRawDocsToIdStructure [JArr [JNum 1, JNull]] docs_1_2 order_1_2 (JStr ''name'') False
     = [JArr [DocA, JNull]]"
  by (simp add: run_simps)

end
